theory Spec2Isabelle
  imports Complex_Main "HOL-Library.Multiset"
begin

section \<open>Constant Speed Optimal Reciprocal Avoidance: the model of csorca.py\<close>

text \<open>
  The program works on numpy arrays of two float64 components. They are modelled as pairs
  of real numbers: every arithmetic operation is the exact one, so rounding, infinities and
  NaN are outside the model. Where the source divides, the theorems below carry the
  hypothesis that the divisor is not zero (HOL's \<open>x / 0 = 0\<close> is not what numpy does).
\<close>

type_synonym vec = "real \<times> real"

subsection \<open>The numpy operations the program uses\<close>

definition vadd :: "vec \<Rightarrow> vec \<Rightarrow> vec" where
  "vadd u v = (fst u + fst v, snd u + snd v)"

definition vsub :: "vec \<Rightarrow> vec \<Rightarrow> vec" where
  "vsub u v = (fst u - fst v, snd u - snd v)"

definition vneg :: "vec \<Rightarrow> vec" where
  "vneg u = (- fst u, - snd u)"

definition smul :: "real \<Rightarrow> vec \<Rightarrow> vec" where
  "smul k u = (k * fst u, k * snd u)"

definition sdiv :: "vec \<Rightarrow> real \<Rightarrow> vec" where
  "sdiv u k = (fst u / k, snd u / k)"

definition dot :: "vec \<Rightarrow> vec \<Rightarrow> real" where
  "dot u v = fst u * fst v + snd u * snd v"

text \<open>\<open>np.linalg.norm\<close> of a 2-vector.\<close>

definition vnorm :: "vec \<Rightarrow> real" where
  "vnorm u = sqrt ((fst u)\<^sup>2 + (snd u)\<^sup>2)"

text \<open>\<open>np.linalg.det(np.array((u, v)))\<close>: the determinant of the matrix of rows u, v.\<close>

definition det2 :: "vec \<Rightarrow> vec \<Rightarrow> real" where
  "det2 u v = fst u * snd v - snd u * fst v"

text \<open>\<open>np.array(((a, b), (c, e))).dot(v)\<close>: a 2x2 matrix, given by its rows, times a vector.\<close>

definition mat_dot :: "vec \<times> vec \<Rightarrow> vec \<Rightarrow> vec" where
  "mat_dot m v = (dot (fst m) v, dot (snd m) v)"

subsection \<open>Some useful functions\<close>

definition is_inside_the_cone :: "vec \<Rightarrow> vec \<Rightarrow> vec \<Rightarrow> vec \<Rightarrow> vec \<Rightarrow> bool" where
  "is_inside_the_cone point pointA pointB v1 v2 =
     (let a_b = vsub pointB pointA;
          a_point = vsub point pointA;
          t1 = det2 a_point v1 * det2 a_b v1;
          t2 = det2 a_point v2 * det2 a_b v2
      in t1 \<ge> 0 \<and> t2 \<ge> 0)"

definition is_inside_the_circle :: "vec \<Rightarrow> vec \<Rightarrow> real \<Rightarrow> bool" where
  "is_inside_the_circle point center radius =
     ((fst (vsub center point))\<^sup>2 + (snd (vsub center point))\<^sup>2 \<le> radius\<^sup>2)"

subsection \<open>Aircraft representation\<close>

text \<open>
  A half-plane of \<open>semi_plan\<close> is the Python list \<open>[c[0], c[1], threshold]\<close>; the source takes
  it apart with \<open>sp[0:-1]\<close> and \<open>sp[-1]\<close>.
\<close>

record Aircraft =
  position :: vec
  trajectory :: "vec list"
  heading :: vec
  destination :: vec
  semi_plan :: "real list list"

text \<open>The class attributes \<open>np.radians(9)\<close> and \<open>np.radians(-9)\<close>.\<close>

definition theta_max :: real where
  "theta_max = 9 * pi / 180"

definition theta_min :: real where
  "theta_min = - 9 * pi / 180"

definition init_Aircraft :: "vec \<Rightarrow> vec \<Rightarrow> vec \<Rightarrow> Aircraft" where
  "init_Aircraft pos hdg dest =
     \<lparr>position = pos, trajectory = [pos], heading = hdg, destination = dest, semi_plan = []\<rparr>"

text \<open>
  \<open>detect_conflict\<close> returns the flag and the tuple \<open>geom = (vr, a_t1, a_t2)\<close>. The flag is the
  product of two booleans, which is their conjunction.
\<close>

definition detect_conflict :: "Aircraft \<Rightarrow> Aircraft \<Rightarrow> real \<Rightarrow> real \<Rightarrow> bool \<times> (vec \<times> vec \<times> vec)" where
  "detect_conflict self other d tau =
     (let a_b = vsub (position other) (position self);
          ro = vnorm a_b;
          vr = vsub (heading self) (heading other);
          theta = arctan (d / ro);
          r1 = ((cos theta, - sin theta), (sin theta, cos theta));
          r2 = ((cos theta, sin theta), (- sin theta, cos theta));
          a_t1 = mat_dot r1 a_b;
          a_t2 = mat_dot r2 a_b;
          geom = (vr, a_t1, a_t2);
          point = vadd (position self) vr;
          conflict = (is_inside_the_cone point (position self) (position other) a_t1 a_t2
                      \<and> (is_inside_the_circle vr (sdiv a_b tau) (d / tau)
                         \<or> \<not> is_inside_the_circle vr (0, 0) (fst a_b / tau)))
      in (conflict, geom))"

text \<open>
  The exhaust vector (c in [Durand, 2018]). The source selects by arithmetic on booleans:
  \<open>c1*(|c1| <= |c2|) + c2*(|c1| > |c2|)\<close>.
\<close>

definition exhaust_vector :: "vec \<Rightarrow> vec \<Rightarrow> vec \<Rightarrow> vec" where
  "exhaust_vector vr a_t1 a_t2 =
     (let u1 = smul (dot a_t1 vr / (vnorm a_t1)\<^sup>2) a_t1;
          u2 = smul (dot a_t2 vr / (vnorm a_t2)\<^sup>2) a_t2;
          c1 = vsub u1 vr;
          c2 = vsub u2 vr
      in vadd (smul (of_bool (vnorm c1 \<le> vnorm c2)) c1)
              (smul (of_bool (vnorm c1 > vnorm c2)) c2))"

text \<open>
  \<open>compute_semi_plan\<close> is a generator of two lists, which the caller unpacks as
  \<open>p_ij, p_ji\<close>: here the pair of them.
\<close>

definition compute_semi_plan :: "Aircraft \<Rightarrow> Aircraft \<Rightarrow> real \<Rightarrow> real \<Rightarrow> real list list \<times> real list list" where
  "compute_semi_plan self other d tau =
     (let (conflict, geom) = detect_conflict self other d tau
      in if conflict then
           (let (vr, a_t1, a_t2) = geom;
                c = exhaust_vector vr a_t1 a_t2;
                p_ij = [fst c, snd c] @ [dot c (vneg (vadd (heading self) (sdiv c 2)))];
                p_ji = [fst (vneg c), snd (vneg c)] @ [dot c (vsub (heading other) (sdiv c 2))]
            in ([p_ij], [p_ji]))
         else ([], []))"

text \<open>
  The optimisation problem handed to \<open>scipy.optimize.minimize\<close> (method trust-constr): the
  objective, the initial guess, the rows and lower bounds of the linear constraint (every
  upper bound is \<open>np.inf\<close>) and the function of the nonlinear constraint, whose bounds are
  0 and 0. The Jacobians and Hessians the source passes are the derivatives of these.
\<close>

record Problem =
  obj :: "vec \<Rightarrow> real"
  x0 :: vec
  lin_const_list :: "real list list"
  lb :: "real list"
  cs_constraint :: "vec \<Rightarrow> real"

text \<open>
  The solver is a library outside the repository: \<open>compute_heading\<close> takes it as the
  parameter \<open>minimize\<close>, the map from a problem to the point \<open>res.x\<close>.
\<close>

definition build_problem :: "Aircraft \<Rightarrow> Problem" where
  "build_problem self =
     (let r_max = ((cos theta_max, - sin theta_max), (sin theta_max, cos theta_max));
          r_min = ((cos theta_min, - sin theta_min), (sin theta_min, cos theta_min));
          h_max = mat_dot r_max (heading self);
          h_min = mat_dot r_min (heading self);
          turning_rate_constraints = [[snd h_max, - fst h_max], [fst h_min, - snd h_min]];
          lin = map butlast (semi_plan self) @ turning_rate_constraints;
          nb_lin_constr = length lin
      in \<lparr>obj = (\<lambda>h. let h_star = vsub (destination self) (position self);
                         h_star = smul (vnorm (heading self) / vnorm h_star) h_star
                     in (fst h_star - fst h)\<^sup>2 + (snd h_star - snd h)\<^sup>2),
          x0 = heading self,
          lin_const_list = lin,
          lb = map last (semi_plan self) @ replicate (nb_lin_constr - length (semi_plan self)) 0,
          cs_constraint = (\<lambda>h. (fst h)\<^sup>2 + (snd h)\<^sup>2 - (vnorm (heading self))\<^sup>2)\<rparr>)"

definition compute_heading :: "(Problem \<Rightarrow> vec) \<Rightarrow> Aircraft \<Rightarrow> vec" where
  "compute_heading minimize self =
     (if semi_plan self = [] then
        sdiv (vsub (destination self) (position self))
             (vnorm (vsub (destination self) (position self)))
      else minimize (build_problem self))"

definition reached_destination :: "Aircraft \<Rightarrow> real \<Rightarrow> bool" where
  "reached_destination self epsilon =
     (vnorm (vsub (destination self) (position self)) \<le> epsilon)"

definition move_Aircraft :: "Aircraft \<Rightarrow> real \<Rightarrow> Aircraft" where
  "move_Aircraft self ts = self\<lparr>position := vadd (position self) (smul ts (heading self))\<rparr>"

subsection \<open>Simulation representation\<close>

record Simulation =
  aircraft :: "Aircraft list"
  d :: real
  tau :: real
  time_step :: real
  area_size :: real
  time :: real
  step :: int
  alerts :: int
  separation_losses :: int

definition init_Simulation :: "Aircraft list \<Rightarrow> real \<Rightarrow> real \<Rightarrow> real \<Rightarrow> real \<Rightarrow> Simulation" where
  "init_Simulation acs sep horizon ts area =
     \<lparr>aircraft = acs, d = sep, tau = horizon, time_step = ts, area_size = area,
      time = 0, step = 0, alerts = 0, separation_losses = 0\<rparr>"

text \<open>
  \<open>Simulation.move\<close>: an aircraft that has not reached its destination (default epsilon 3)
  moves; its position is appended to its trajectory in both cases.
\<close>

definition move_one :: "real \<Rightarrow> Aircraft \<Rightarrow> Aircraft" where
  "move_one ts ac =
     (let ac1 = (if \<not> reached_destination ac 3 then move_Aircraft ac ts else ac)
      in ac1\<lparr>trajectory := trajectory ac1 @ [position ac1]\<rparr>)"

definition move :: "Simulation \<Rightarrow> Simulation" where
  "move sim = sim\<lparr>aircraft := map (move_one (time_step sim)) (aircraft sim)\<rparr>"

text \<open>The body of the inner loop of \<open>run_one_step\<close>, for the pair (i, j).\<close>

definition scan_pair :: "nat \<Rightarrow> nat \<Rightarrow> Simulation \<Rightarrow> Simulation" where
  "scan_pair i j sim =
     (let conflict = fst (detect_conflict (aircraft sim ! i) (aircraft sim ! j) (d sim) (tau sim));
          sim1 = sim\<lparr>alerts := alerts sim + of_bool conflict\<rparr>;
          (p_ij, p_ji) = compute_semi_plan (aircraft sim1 ! i) (aircraft sim1 ! j) (d sim1) (tau sim1);
          acs1 = (aircraft sim1)[i := (aircraft sim1 ! i)\<lparr>semi_plan := semi_plan (aircraft sim1 ! i) @ p_ij\<rparr>];
          acs2 = acs1[j := (acs1 ! j)\<lparr>semi_plan := semi_plan (acs1 ! j) @ p_ji\<rparr>]
      in sim1\<lparr>aircraft := acs2\<rparr>)"

text \<open>
  The body of the outer loop for agent i, on the simulation and the local \<open>done\<close>: the
  inner loop over j, the new heading, the reset of the semi-plans and the update of
  \<open>done\<close>.
\<close>

definition scan_from :: "nat \<Rightarrow> nat \<Rightarrow> Simulation \<Rightarrow> Simulation" where
  "scan_from N i sim = fold (scan_pair i) [i + 1 ..< N] sim"

definition resolve :: "(Problem \<Rightarrow> vec) \<Rightarrow> nat \<Rightarrow> Simulation \<Rightarrow> Simulation" where
  "resolve minimize i sim =
     (let new_heading = compute_heading minimize (aircraft sim ! i);
          acs1 = (aircraft sim)[i := (aircraft sim ! i)\<lparr>heading := new_heading\<rparr>];
          acs2 = acs1[i := (acs1 ! i)\<lparr>semi_plan := []\<rparr>]
      in sim\<lparr>aircraft := acs2\<rparr>)"

definition outer_body :: "(Problem \<Rightarrow> vec) \<Rightarrow> nat \<Rightarrow> nat \<Rightarrow> Simulation \<times> bool \<Rightarrow> Simulation \<times> bool" where
  "outer_body minimize N i s =
     (let sim1 = scan_from N i (fst s);
          sim2 = resolve minimize i sim1
      in (sim2, snd s \<and> reached_destination (aircraft sim2 ! i) 3))"

definition heading_loop :: "(Problem \<Rightarrow> vec) \<Rightarrow> Simulation \<Rightarrow> Simulation \<times> bool" where
  "heading_loop minimize sim =
     (let N = length (aircraft sim)
      in fold (outer_body minimize N) [0 ..< N] (sim, True))"

text \<open>The second pair of loops: the check of the separation losses, after the motion.\<close>

definition loss_pair :: "nat \<Rightarrow> nat \<Rightarrow> Simulation \<Rightarrow> Simulation" where
  "loss_pair i j sim =
     sim\<lparr>separation_losses := separation_losses sim
           + of_bool (vnorm (vsub (position (aircraft sim ! i)) (position (aircraft sim ! j))) < d sim)\<rparr>"

definition loss_loop :: "Simulation \<Rightarrow> Simulation" where
  "loss_loop sim =
     (let N = length (aircraft sim)
      in fold (\<lambda>i. fold (loss_pair i) [i + 1 ..< N]) [0 ..< N] sim)"

text \<open>\<open>run_one_step\<close>, without the display: the new state and the returned \<open>bool(done)\<close>.\<close>

definition run_one_step :: "(Problem \<Rightarrow> vec) \<Rightarrow> Simulation \<Rightarrow> Simulation \<times> bool" where
  "run_one_step minimize sim =
     (let (sim1, done) = heading_loop minimize sim;
          sim2 = move sim1;
          sim3 = sim2\<lparr>step := step sim2 + 1\<rparr>;
          sim4 = sim3\<lparr>time := time sim3 + time_step sim3\<rparr>;
          sim5 = loss_loop sim4
      in (sim5, done))"



subsection \<open>Two aircraft in conflict, for the concrete checks\<close>

definition ex_self :: Aircraft where
  "ex_self = init_Aircraft (0, 0) (2, 0) (100, 0)"

definition ex_other :: Aircraft where
  "ex_other = init_Aircraft (4, 0) (0, 0) (- 100, 0)"

definition ex_sim :: Simulation where
  "ex_sim = init_Simulation [ex_self, ex_other] 3 1 3 500"

subsection \<open>Simulations of a single aircraft, for the concrete checks\<close>

definition ex_single :: Simulation where
  "ex_single = init_Simulation [init_Aircraft (0, 0) (10, 0) (4, 0)] 1000 3 3 500"

definition ex_arrived :: Simulation where
  "ex_arrived = init_Simulation [init_Aircraft (0, 0) (1, 0) (0, 2)] 1000 3 3 500"

subsection \<open>What the solver is asked for\<close>

text \<open>
  The meaning scipy gives to the constraints of a problem: each row of the linear constraint,
  multiplied by the point, is at least its lower bound, and the function of the nonlinear
  constraint is 0 at the point.
\<close>

definition row_dot :: "real list \<Rightarrow> vec \<Rightarrow> real" where
  "row_dot row h = sum_list (map2 (*) row [fst h, snd h])"

definition feasible :: "Problem \<Rightarrow> vec \<Rightarrow> bool" where
  "feasible pb h =
     (list_all (\<lambda>(row, l). l \<le> row_dot row h) (zip (lin_const_list pb) (lb pb))
      \<and> cs_constraint pb h = 0)"

text \<open>
  The first aircraft of \<open>ex_sim\<close> at the moment \<open>run_one_step\<close> computes its heading: after
  the inner loop for i = 0.
\<close>

definition ex_constrained :: Aircraft where
  "ex_constrained = aircraft (scan_from 2 0 ex_sim) ! 0"

subsection \<open>The two-phase protocol of the specification\<close>

text \<open>
  The specification describes the first loop of a step as a strict two-phase protocol:
  first every pair i < j is scanned, on the headings and positions frozen at the start of
  the step; then every aircraft is resolved, in any order. These definitions follow the
  specification's words, to be compared with \<open>heading_loop\<close>, which follows the source.
  \<open>pairs N\<close> lists the pairs; \<open>scan_pair_frozen acs0\<close> detects the conflict and computes the
  two half-planes on the frozen fleet \<open>acs0\<close>, and accumulates them in the simulation.
\<close>

definition pairs :: "nat \<Rightarrow> (nat \<times> nat) list" where
  "pairs N = concat (map (\<lambda>i. map (Pair i) [i + 1 ..< N]) [0 ..< N])"

definition scan_pair_frozen :: "Aircraft list \<Rightarrow> nat \<times> nat \<Rightarrow> Simulation \<Rightarrow> Simulation" where
  "scan_pair_frozen acs0 ij sim =
     (let self = acs0 ! fst ij; other = acs0 ! snd ij;
          conflict = fst (detect_conflict self other (d sim) (tau sim));
          (p_ij, p_ji) = compute_semi_plan self other (d sim) (tau sim);
          acs1 = (aircraft sim)[fst ij := (aircraft sim ! fst ij)
                   \<lparr>semi_plan := semi_plan (aircraft sim ! fst ij) @ p_ij\<rparr>];
          acs2 = acs1[snd ij := (acs1 ! snd ij)\<lparr>semi_plan := semi_plan (acs1 ! snd ij) @ p_ji\<rparr>]
      in sim\<lparr>alerts := alerts sim + of_bool conflict, aircraft := acs2\<rparr>)"

definition two_phase_scan :: "Simulation \<Rightarrow> Simulation" where
  "two_phase_scan sim =
     fold (scan_pair_frozen (aircraft sim)) (pairs (length (aircraft sim))) sim"

text \<open>The second phase resolves the aircraft in the order \<open>ord\<close>.\<close>

definition two_phase_step :: "(Problem \<Rightarrow> vec) \<Rightarrow> nat list \<Rightarrow> Simulation \<Rightarrow> Simulation" where
  "two_phase_step minimize ord sim = fold (resolve minimize) ord (two_phase_scan sim)"

section \<open>Vectors\<close>

lemmas vec_defs = vadd_def vsub_def vneg_def smul_def sdiv_def dot_def det2_def mat_dot_def

lemma vnorm_eq_0: "vnorm u = 0 \<longleftrightarrow> u = (0, 0)"
  by (cases u) (simp add: vnorm_def sum_power2_eq_zero_iff)

lemma vnorm_nonneg: "0 \<le> vnorm u"
  by (simp add: vnorm_def)

lemma vnorm_sq: "(vnorm u)\<^sup>2 = (fst u)\<^sup>2 + (snd u)\<^sup>2"
  by (simp add: vnorm_def)

lemma vnorm_vsub_commute: "vnorm (vsub u v) = vnorm (vsub v u)"
  by (simp add: vnorm_def vsub_def power2_commute)

lemma vnorm_sdiv: "k > 0 \<Longrightarrow> vnorm (sdiv u k) = vnorm u / k"
proof -
  assume k: "k > 0"
  have "(fst u / k)\<^sup>2 + (snd u / k)\<^sup>2 = ((fst u)\<^sup>2 + (snd u)\<^sup>2) / k\<^sup>2"
    by (simp add: power_divide add_divide_distrib)
  then show ?thesis using k by (simp add: vnorm_def sdiv_def real_sqrt_divide)
qed

lemma vsub_vadd_cancel: "vsub (vadd p v) p = v"
  by (simp add: vsub_def vadd_def)

lemma det2_vneg: "det2 (vneg u) (vneg v) = det2 u v"
  by (simp add: det2_def vneg_def)

lemma mat_dot_vneg: "mat_dot m (vneg v) = vneg (mat_dot m v)"
  by (simp add: mat_dot_def dot_def vneg_def)

section \<open>The concrete conflict\<close>

lemma sqrt_16: "sqrt 16 = 4"
  by (rule real_sqrt_unique) simp_all

lemma sqrt_25: "sqrt 25 = 5"
  by (rule real_sqrt_unique) simp_all

lemma cos_arctan_3_4: "cos (arctan (3 / 4)) = 4 / 5"
  by (simp add: cos_arctan power_divide real_sqrt_divide sqrt_16 sqrt_25)

lemma sin_arctan_3_4: "sin (arctan (3 / 4)) = 3 / 5"
  by (simp add: sin_arctan power_divide real_sqrt_divide sqrt_16 sqrt_25)

lemma ex_detect:
  "detect_conflict ex_self ex_other 3 1 = (True, ((2, 0), (16 / 5, 12 / 5), (16 / 5, - (12 / 5))))"
  by (simp add: detect_conflict_def ex_self_def ex_other_def init_Aircraft_def Let_def vec_defs
      vnorm_def sqrt_16 cos_arctan_3_4 sin_arctan_3_4 is_inside_the_cone_def is_inside_the_circle_def)

section \<open>Conflict detection\<close>

lemma circle_vneg:
  "is_inside_the_circle (vneg p) (sdiv (vneg c) k) r = is_inside_the_circle p (sdiv c k) r"
proof -
  have "(- (fst c / k) + fst p)\<^sup>2 = (fst c / k - fst p)\<^sup>2"
    "(- (snd c / k) + snd p)\<^sup>2 = (snd c / k - snd p)\<^sup>2"
    by (simp_all add: power2_eq_square algebra_simps)
  then show ?thesis
    by (simp add: is_inside_the_circle_def vsub_def vneg_def sdiv_def)
qed

lemma circle_origin_vneg:
  "is_inside_the_circle (vneg p) (0, 0) (fst (vneg c) / k) = is_inside_the_circle p (0, 0) (fst c / k)"
  by (simp add: is_inside_the_circle_def vsub_def vneg_def)

lemma cone_vadd:
  "is_inside_the_cone (vadd p v) p q e1 e2
     = (det2 v e1 * det2 (vsub q p) e1 \<ge> 0 \<and> det2 v e2 * det2 (vsub q p) e2 \<ge> 0)"
  by (simp add: is_inside_the_cone_def Let_def vsub_vadd_cancel)

lemma detect_conflict_swap:
  "fst (detect_conflict a b sep tt) = fst (detect_conflict b a sep tt)"
proof -
  have n: "vnorm (vsub (position a) (position b)) = vnorm (vsub (position b) (position a))"
    by (rule vnorm_vsub_commute)
  have neg: "vsub (position a) (position b) = vneg (vsub (position b) (position a))"
    "vsub (heading b) (heading a) = vneg (vsub (heading a) (heading b))"
    by (simp_all add: vsub_def vneg_def)
  show ?thesis
    by (simp add: detect_conflict_def Let_def cone_vadd n)
       (simp add: neg mat_dot_vneg det2_vneg circle_vneg circle_origin_vneg)
qed

text \<open>
  C6. The flag of \<open>detect_conflict\<close>. With \<open>dp = other.position - self.position\<close>,
  \<open>vr = self.heading - other.heading\<close> and \<open>theta = atan(d / |dp|)\<close>, the flag is true iff the
  point \<open>self.position + vr\<close> is in the cone of apex \<open>self.position\<close> whose edges are \<open>dp\<close>
  rotated by \<open>theta\<close> and by \<open>- theta\<close>, on the side of \<open>other.position\<close> (for each edge e the
  determinants of (vr, e) and of (dp, e) have a product that is not negative), and \<open>vr\<close> is
  in the disk of centre \<open>dp / tau\<close> and radius \<open>d / tau\<close> or is not in the disk of centre the
  origin whose radius is the x-component of \<open>dp\<close> divided by \<open>tau\<close>; a disk test compares
  the squared distance with the squared radius.
\<close>

theorem detect_conflict_flag:
  assumes "position other \<noteq> position self" and "tt \<noteq> 0"
  shows "fst (detect_conflict self other sep tt) \<longleftrightarrow>
    (let dp = vsub (position other) (position self);
         vr = vsub (heading self) (heading other);
         theta = arctan (sep / vnorm dp);
         e1 = (cos theta * fst dp - sin theta * snd dp, sin theta * fst dp + cos theta * snd dp);
         e2 = (cos (- theta) * fst dp - sin (- theta) * snd dp,
               sin (- theta) * fst dp + cos (- theta) * snd dp)
     in (det2 vr e1 * det2 dp e1 \<ge> 0 \<and> det2 vr e2 * det2 dp e2 \<ge> 0)
        \<and> ((fst vr - fst dp / tt)\<^sup>2 + (snd vr - snd dp / tt)\<^sup>2 \<le> (sep / tt)\<^sup>2
           \<or> \<not> ((fst vr)\<^sup>2 + (snd vr)\<^sup>2 \<le> (fst dp / tt)\<^sup>2)))"
  by (simp add: detect_conflict_def Let_def is_inside_the_cone_def is_inside_the_circle_def
      vsub_vadd_cancel mat_dot_def dot_def sdiv_def)
     (simp add: vsub_def power2_commute)

theorem detect_conflict_flag_witness:
  "position ex_other \<noteq> position ex_self \<and> (1::real) \<noteq> 0
   \<and> (fst (detect_conflict ex_self ex_other 3 1) \<longleftrightarrow>
    (let dp = vsub (position ex_other) (position ex_self);
         vr = vsub (heading ex_self) (heading ex_other);
         theta = arctan (3 / vnorm dp);
         e1 = (cos theta * fst dp - sin theta * snd dp, sin theta * fst dp + cos theta * snd dp);
         e2 = (cos (- theta) * fst dp - sin (- theta) * snd dp,
               sin (- theta) * fst dp + cos (- theta) * snd dp)
     in (det2 vr e1 * det2 dp e1 \<ge> 0 \<and> det2 vr e2 * det2 dp e2 \<ge> 0)
        \<and> ((fst vr - fst dp / 1)\<^sup>2 + (snd vr - snd dp / 1)\<^sup>2 \<le> (3 / 1)\<^sup>2
           \<or> \<not> ((fst vr)\<^sup>2 + (snd vr)\<^sup>2 \<le> (fst dp / 1)\<^sup>2))))"
proof -
  have h: "position ex_other \<noteq> position ex_self"
    by (simp add: ex_self_def ex_other_def init_Aircraft_def)
  show ?thesis
    using h detect_conflict_flag [OF h, of 1 3] by simp
qed



section \<open>The exhaust vector\<close>

lemma exhaust_vector_cases:
  "exhaust_vector vr t1 t2 =
     (if vnorm (vsub (smul (dot t1 vr / (vnorm t1)\<^sup>2) t1) vr)
          \<le> vnorm (vsub (smul (dot t2 vr / (vnorm t2)\<^sup>2) t2) vr)
      then vsub (smul (dot t1 vr / (vnorm t1)\<^sup>2) t1) vr
      else vsub (smul (dot t2 vr / (vnorm t2)\<^sup>2) t2) vr)"
  by (simp add: exhaust_vector_def Let_def vadd_def smul_def)

lemma ex_exhaust:
  "exhaust_vector (2, 0) (16 / 5, 12 / 5) (16 / 5, - (12 / 5)) = (- (18 / 25), 24 / 25)"
  by (simp add: exhaust_vector_cases vec_defs vnorm_def power_divide)

text \<open>
  C7. For tangent vectors that are not zero, \<open>exhaust_vector(vr, t1, t2)\<close> is one of the two
  candidates \<open>c1 = (t1 . vr / |t1|^2) t1 - vr\<close> and \<open>c2 = (t2 . vr / |t2|^2) t2 - vr\<close>, and its norm
  is the smaller of the two norms.
\<close>

theorem exhaust_vector_smaller_norm:
  assumes "t1 \<noteq> (0, 0)" and "t2 \<noteq> (0, 0)"
  shows "(exhaust_vector vr t1 t2 = vsub (smul (dot t1 vr / (vnorm t1)\<^sup>2) t1) vr
          \<or> exhaust_vector vr t1 t2 = vsub (smul (dot t2 vr / (vnorm t2)\<^sup>2) t2) vr)
         \<and> vnorm (exhaust_vector vr t1 t2)
             = min (vnorm (vsub (smul (dot t1 vr / (vnorm t1)\<^sup>2) t1) vr))
                   (vnorm (vsub (smul (dot t2 vr / (vnorm t2)\<^sup>2) t2) vr))"
  by (simp add: exhaust_vector_cases min_def)

theorem exhaust_vector_smaller_norm_witness:
  "(16 / 5, 12 / 5) \<noteq> (0 :: real, 0 :: real) \<and> (16 / 5, - (12 / 5)) \<noteq> (0 :: real, 0 :: real)
   \<and> exhaust_vector (2, 0) (16 / 5, 12 / 5) (16 / 5, - (12 / 5)) = (- (18 / 25), 24 / 25)
   \<and> vnorm (exhaust_vector (2, 0) (16 / 5, 12 / 5) (16 / 5, - (12 / 5)))
       = min (vnorm (vsub (smul (dot (16 / 5, 12 / 5) (2, 0) / (vnorm (16 / 5, 12 / 5))\<^sup>2) (16 / 5, 12 / 5)) (2, 0)))
             (vnorm (vsub (smul (dot (16 / 5, - (12 / 5)) (2, 0) / (vnorm (16 / 5, - (12 / 5)))\<^sup>2)
                      (16 / 5, - (12 / 5))) (2, 0)))"
  using exhaust_vector_smaller_norm [of "(16 / 5, 12 / 5)" "(16 / 5, - (12 / 5))" "(2, 0)"]
  by (simp add: ex_exhaust)

section \<open>The heading without conflict\<close>

text \<open>
  C8. An aircraft whose constraint set is empty, and which is not at its destination, gets
  the heading \<open>(destination - position) / |destination - position|\<close>: a vector of norm 1,
  whatever the norm of its current heading.
\<close>

theorem compute_heading_no_conflict:
  assumes "semi_plan self = []" and "destination self \<noteq> position self"
  shows "compute_heading minimize self
           = sdiv (vsub (destination self) (position self))
                  (vnorm (vsub (destination self) (position self)))
         \<and> vnorm (compute_heading minimize self) = 1"
proof -
  let ?v = "vsub (destination self) (position self)"
  have nz: "?v \<noteq> (0, 0)" using assms(2) by (auto simp: vsub_def prod_eq_iff)
  then have pos: "vnorm ?v > 0" using vnorm_eq_0[of ?v] by (simp add: vnorm_def less_le)
  have "vnorm (sdiv ?v (vnorm ?v)) = 1"
    using pos by (simp add: vnorm_sdiv)
  then show ?thesis using assms(1) by (simp add: compute_heading_def)
qed

theorem compute_heading_no_conflict_witness:
  "semi_plan ex_self = [] \<and> destination ex_self \<noteq> position ex_self
   \<and> vnorm (heading ex_self) = 2
   \<and> compute_heading x0 ex_self = (1, 0)
   \<and> vnorm (compute_heading x0 ex_self) = 1"
proof -
  have h1: "semi_plan ex_self = []" and h2: "destination ex_self \<noteq> position ex_self"
    by (simp_all add: ex_self_def init_Aircraft_def)
  have v: "vsub (destination ex_self) (position ex_self) = (100, 0)"
    by (simp add: ex_self_def init_Aircraft_def vsub_def)
  have n: "vnorm (100, 0) = 100" "vnorm (heading ex_self) = 2" "vnorm (1, 0) = 1"
    by (simp_all add: vnorm_def ex_self_def init_Aircraft_def)
  show ?thesis
    using h1 h2 compute_heading_no_conflict [OF h1 h2, of x0]
    by (simp add: v n sdiv_def)
qed

section \<open>Folds and updates\<close>

lemma fold_invariant:
  assumes "\<And>x s. P s \<Longrightarrow> P (f x s)" and "P s"
  shows "P (fold f xs s)"
  using assms(2) by (induction xs arbitrary: s) (simp_all add: assms(1))

lemma map_update_same:
  assumes "\<And>a. f (g a) = f a"
  shows "map f (xs[i := g (xs ! i)]) = map f xs"
  by (cases "i < length xs") (simp_all add: map_update assms list_update_same_conv list_update_beyond)

lemma ex_semi_plan:
  "compute_semi_plan ex_self ex_other 3 1
     = ([[- (18 / 25), 24 / 25, 18 / 25]], [[18 / 25, - (24 / 25), - (18 / 25)]])"
  by (simp add: compute_semi_plan_def ex_detect ex_exhaust Let_def)
     (simp add: vec_defs ex_self_def ex_other_def init_Aircraft_def)

lemma build_problem_rows:
  "zip (lin_const_list (build_problem a)) (lb (build_problem a))
     = map (\<lambda>sp. (butlast sp, last sp)) (semi_plan a)
       @ [([snd (mat_dot ((cos theta_max, - sin theta_max), (sin theta_max, cos theta_max)) (heading a)),
            - fst (mat_dot ((cos theta_max, - sin theta_max), (sin theta_max, cos theta_max)) (heading a))], 0),
          ([fst (mat_dot ((cos theta_min, - sin theta_min), (sin theta_min, cos theta_min)) (heading a)),
            - snd (mat_dot ((cos theta_min, - sin theta_min), (sin theta_min, cos theta_min)) (heading a))], 0)]"
  by (simp add: build_problem_def Let_def zip_map_map numeral_2_eq_2 zip_same_conv_map)

lemma scan_pair_aircraft:
  assumes "i \<noteq> j" and "i < length (aircraft sim)" and "j < length (aircraft sim)"
  shows "aircraft (scan_pair i j sim)
     = (aircraft sim)
         [i := (aircraft sim ! i)\<lparr>semi_plan := semi_plan (aircraft sim ! i)
               @ fst (compute_semi_plan (aircraft sim ! i) (aircraft sim ! j) (d sim) (tau sim))\<rparr>,
          j := (aircraft sim ! j)\<lparr>semi_plan := semi_plan (aircraft sim ! j)
               @ snd (compute_semi_plan (aircraft sim ! i) (aircraft sim ! j) (d sim) (tau sim))\<rparr>]"
  using assms by (simp add: scan_pair_def Let_def split_beta)

lemma compute_semi_plan_cases:
  "compute_semi_plan self other sep tt =
    (if fst (detect_conflict self other sep tt) then
       ([[fst (exhaust_vector (fst (snd (detect_conflict self other sep tt)))
                 (fst (snd (snd (detect_conflict self other sep tt))))
                 (snd (snd (snd (detect_conflict self other sep tt))))),
          snd (exhaust_vector (fst (snd (detect_conflict self other sep tt)))
                 (fst (snd (snd (detect_conflict self other sep tt))))
                 (snd (snd (snd (detect_conflict self other sep tt))))),
          dot (exhaust_vector (fst (snd (detect_conflict self other sep tt)))
                 (fst (snd (snd (detect_conflict self other sep tt))))
                 (snd (snd (snd (detect_conflict self other sep tt)))))
              (vneg (vadd (heading self) (sdiv (exhaust_vector (fst (snd (detect_conflict self other sep tt)))
                 (fst (snd (snd (detect_conflict self other sep tt))))
                 (snd (snd (snd (detect_conflict self other sep tt))))) 2)))]],
        [[- fst (exhaust_vector (fst (snd (detect_conflict self other sep tt)))
                 (fst (snd (snd (detect_conflict self other sep tt))))
                 (snd (snd (snd (detect_conflict self other sep tt))))),
          - snd (exhaust_vector (fst (snd (detect_conflict self other sep tt)))
                 (fst (snd (snd (detect_conflict self other sep tt))))
                 (snd (snd (snd (detect_conflict self other sep tt))))),
          dot (exhaust_vector (fst (snd (detect_conflict self other sep tt)))
                 (fst (snd (snd (detect_conflict self other sep tt))))
                 (snd (snd (snd (detect_conflict self other sep tt)))))
              (vsub (heading other) (sdiv (exhaust_vector (fst (snd (detect_conflict self other sep tt)))
                 (fst (snd (snd (detect_conflict self other sep tt))))
                 (snd (snd (snd (detect_conflict self other sep tt))))) 2))]])
     else ([], []))"
  by (simp add: compute_semi_plan_def Let_def split_beta vneg_def)

text \<open>
  C1 (as the code has it). For a pair i < j of the fleet, the body of the inner loop appends
  to the constraint set of \<open>self = aircraft[i]\<close> and of \<open>other = aircraft[j]\<close>: when a conflict is
  detected, with c the exhaust vector, the half-plane \<open>[c.x, c.y, c . (-(self.heading + c/2))]\<close>
  to self and the half-plane \<open>[-c.x, -c.y, c . (other.heading - c/2)]\<close> to other, whose
  threshold is the dot product with c, not with -c; when no conflict is detected, nothing
  to either. The problem of the headings reads a stored half-plane \<open>sp\<close> as the row \<open>sp[0:-1]\<close>
  with the lower bound \<open>sp[-1]\<close>, that is \<open>coef . h >= threshold\<close>.
\<close>

theorem scan_pair_appends:
  assumes "i < j" and "j < length (aircraft sim)"
  shows "(let self = aircraft sim ! i; other = aircraft sim ! j;
              r = detect_conflict self other (d sim) (tau sim);
              c = exhaust_vector (fst (snd r)) (fst (snd (snd r))) (snd (snd (snd r)));
              acs = aircraft (scan_pair i j sim)
          in semi_plan (acs ! i) = semi_plan self
               @ (if fst r then [[fst c, snd c, dot c (vneg (vadd (heading self) (sdiv c 2)))]] else [])
           \<and> semi_plan (acs ! j) = semi_plan other
               @ (if fst r then [[- fst c, - snd c, dot c (vsub (heading other) (sdiv c 2))]] else []))
         \<and> (\<forall>a. take (length (semi_plan a)) (zip (lin_const_list (build_problem a)) (lb (build_problem a)))
                   = map (\<lambda>sp. (butlast sp, last sp)) (semi_plan a))"
proof -
  have ij: "i \<noteq> j" "i < length (aircraft sim)" using assms by simp_all
  show ?thesis
    unfolding Let_def scan_pair_aircraft [OF ij assms(2)]
    using assms by (simp add: compute_semi_plan_cases build_problem_rows)
qed


lemma ex_sim_aircraft: "aircraft ex_sim = [ex_self, ex_other]" "d ex_sim = 3" "tau ex_sim = 1"
  by (simp_all add: ex_sim_def init_Simulation_def)

theorem scan_pair_appends_witness:
  "(0::nat) < 1 \<and> 1 < length (aircraft ex_sim)
   \<and> fst (detect_conflict ex_self ex_other 3 1)
   \<and> semi_plan (aircraft (scan_pair 0 1 ex_sim) ! 0) = [[- (18 / 25), 24 / 25, 18 / 25]]
   \<and> semi_plan (aircraft (scan_pair 0 1 ex_sim) ! 1) = [[18 / 25, - (24 / 25), - (18 / 25)]]"
proof -
  have h: "(0::nat) < 1" "1 < length (aircraft ex_sim)" by (simp_all add: ex_sim_aircraft)
  have s: "semi_plan ex_self = []" "semi_plan ex_other = []" "heading ex_self = (2, 0)"
    "heading ex_other = (0, 0)"
    by (simp_all add: ex_self_def ex_other_def init_Aircraft_def)
  show ?thesis
    using scan_pair_appends [OF h]
    by (simp add: ex_sim_aircraft ex_detect ex_exhaust Let_def s vec_defs)
qed

text \<open>
  On the two aircraft in conflict the threshold stored for other is -18/25, where
  \<open>(-c) . (other.heading - c/2)\<close> is 18/25.
\<close>

theorem threshold_other_counterexample:
  "fst (detect_conflict ex_self ex_other 3 1)
   \<and> (let r = detect_conflict ex_self ex_other 3 1;
           c = exhaust_vector (fst (snd r)) (fst (snd (snd r))) (snd (snd (snd r)))
       in semi_plan (aircraft (scan_pair 0 1 ex_sim) ! 1)
            \<noteq> semi_plan ex_other
                @ [[fst (vneg c), snd (vneg c), dot (vneg c) (vsub (heading ex_other) (sdiv c 2))]])"
proof -
  have s: "semi_plan ex_other = []" "heading ex_other = (0, 0)"
    by (simp_all add: ex_self_def ex_other_def init_Aircraft_def)
  have a: "aircraft (scan_pair 0 1 ex_sim) ! 1
      = ex_other\<lparr>semi_plan := semi_plan ex_other @ snd (compute_semi_plan ex_self ex_other 3 1)\<rparr>"
    by (simp add: scan_pair_aircraft ex_sim_aircraft)
  show ?thesis
    using a by (simp add: ex_semi_plan ex_detect ex_exhaust Let_def s vec_defs)
qed

section \<open>What the loops of run_one_step keep\<close>

lemma scan_pair_fields [simp]:
  "d (scan_pair i j s) = d s" "tau (scan_pair i j s) = tau s"
  "time_step (scan_pair i j s) = time_step s" "step (scan_pair i j s) = step s"
  "time (scan_pair i j s) = time s" "separation_losses (scan_pair i j s) = separation_losses s"
  "length (aircraft (scan_pair i j s)) = length (aircraft s)"
  by (simp_all add: scan_pair_def Let_def split_beta)

lemma scan_pair_map:
  assumes "\<And>a x. f (a\<lparr>semi_plan := x\<rparr>) = f a"
  shows "map f (aircraft (scan_pair i j s)) = map f (aircraft s)"
proof -
  have "\<And>xs k x. map f (xs[k := (xs ! k)\<lparr>semi_plan := x (xs ! k)\<rparr>]) = map f xs"
    by (rule map_update_same) (simp add: assms)
  note u = this
  show ?thesis
    unfolding scan_pair_def Let_def split_beta
    using u[of _ _ "\<lambda>a. semi_plan a @ _"] 
    by simp
qed

lemma resolve_fields [simp]:
  "d (resolve m i s) = d s" "tau (resolve m i s) = tau s"
  "time_step (resolve m i s) = time_step s" "step (resolve m i s) = step s"
  "time (resolve m i s) = time s" "separation_losses (resolve m i s) = separation_losses s"
  "alerts (resolve m i s) = alerts s"
  "length (aircraft (resolve m i s)) = length (aircraft s)"
  by (simp_all add: resolve_def Let_def)

lemma resolve_map:
  assumes "\<And>a x. f (a\<lparr>semi_plan := x\<rparr>) = f a" and "\<And>a x. f (a\<lparr>heading := x\<rparr>) = f a"
  shows "map f (aircraft (resolve m i s)) = map f (aircraft s)"
  by (cases "i < length (aircraft s)")
     (simp_all add: resolve_def Let_def map_update assms list_update_same_conv list_update_beyond)


lemma scan_from_fields [simp]:
  "d (scan_from N i s) = d s" "tau (scan_from N i s) = tau s"
  "time_step (scan_from N i s) = time_step s" "step (scan_from N i s) = step s"
  "time (scan_from N i s) = time s" "separation_losses (scan_from N i s) = separation_losses s"
  "length (aircraft (scan_from N i s)) = length (aircraft s)"
proof -
  let ?P = "\<lambda>s'. d s' = d s \<and> tau s' = tau s \<and> time_step s' = time_step s \<and> step s' = step s
     \<and> time s' = time s \<and> separation_losses s' = separation_losses s
     \<and> length (aircraft s') = length (aircraft s)"
  have "?P (scan_from N i s)"
    unfolding scan_from_def by (rule fold_invariant) simp_all
  then show "d (scan_from N i s) = d s" "tau (scan_from N i s) = tau s"
  "time_step (scan_from N i s) = time_step s" "step (scan_from N i s) = step s"
  "time (scan_from N i s) = time s" "separation_losses (scan_from N i s) = separation_losses s"
  "length (aircraft (scan_from N i s)) = length (aircraft s)"
    by simp_all
qed

lemma scan_from_map:
  assumes "\<And>a x. f (a\<lparr>semi_plan := x\<rparr>) = f a"
  shows "map f (aircraft (scan_from N i s)) = map f (aircraft s)"
  unfolding scan_from_def
  by (rule fold_invariant [where P = "\<lambda>s'. map f (aircraft s') = map f (aircraft s)"])
     (simp_all add: scan_pair_map assms)

lemma outer_body_fields [simp]:
  "d (fst (outer_body m N i p)) = d (fst p)" "tau (fst (outer_body m N i p)) = tau (fst p)"
  "time_step (fst (outer_body m N i p)) = time_step (fst p)"
  "step (fst (outer_body m N i p)) = step (fst p)"
  "time (fst (outer_body m N i p)) = time (fst p)"
  "separation_losses (fst (outer_body m N i p)) = separation_losses (fst p)"
  "length (aircraft (fst (outer_body m N i p))) = length (aircraft (fst p))"
  by (simp_all add: outer_body_def Let_def)

lemma outer_body_map:
  assumes "\<And>a x. f (a\<lparr>semi_plan := x\<rparr>) = f a" and "\<And>a x. f (a\<lparr>heading := x\<rparr>) = f a"
  shows "map f (aircraft (fst (outer_body m N i p))) = map f (aircraft (fst p))"
  by (simp add: outer_body_def Let_def resolve_map scan_from_map assms)

lemma outer_fold_frame:
  "d (fst (fold (outer_body m N) is p)) = d (fst p)
   \<and> tau (fst (fold (outer_body m N) is p)) = tau (fst p)
   \<and> time_step (fst (fold (outer_body m N) is p)) = time_step (fst p)
   \<and> step (fst (fold (outer_body m N) is p)) = step (fst p)
   \<and> time (fst (fold (outer_body m N) is p)) = time (fst p)
   \<and> separation_losses (fst (fold (outer_body m N) is p)) = separation_losses (fst p)
   \<and> length (aircraft (fst (fold (outer_body m N) is p))) = length (aircraft (fst p))"
  by (rule fold_invariant [where P = "\<lambda>q. d (fst q) = d (fst p) \<and> tau (fst q) = tau (fst p)
       \<and> time_step (fst q) = time_step (fst p) \<and> step (fst q) = step (fst p)
       \<and> time (fst q) = time (fst p) \<and> separation_losses (fst q) = separation_losses (fst p)
       \<and> length (aircraft (fst q)) = length (aircraft (fst p))"]) simp_all

lemma outer_fold_map:
  assumes "\<And>a x. f (a\<lparr>semi_plan := x\<rparr>) = f a" and "\<And>a x. f (a\<lparr>heading := x\<rparr>) = f a"
  shows "map f (aircraft (fst (fold (outer_body m N) is p))) = map f (aircraft (fst p))"
  by (rule fold_invariant [where P = "\<lambda>q. map f (aircraft (fst q)) = map f (aircraft (fst p))"])
     (simp_all add: outer_body_map assms)

lemma heading_loop_frame [simp]:
  "d (fst (heading_loop m s)) = d s" "tau (fst (heading_loop m s)) = tau s"
  "time_step (fst (heading_loop m s)) = time_step s" "step (fst (heading_loop m s)) = step s"
  "time (fst (heading_loop m s)) = time s"
  "separation_losses (fst (heading_loop m s)) = separation_losses s"
  "length (aircraft (fst (heading_loop m s))) = length (aircraft s)"
  using outer_fold_frame [of m "length (aircraft s)" "[0 ..< length (aircraft s)]" "(s, True)"]
  by (simp_all add: heading_loop_def Let_def)

lemma heading_loop_map:
  assumes "\<And>a x. f (a\<lparr>semi_plan := x\<rparr>) = f a" and "\<And>a x. f (a\<lparr>heading := x\<rparr>) = f a"
  shows "map f (aircraft (fst (heading_loop m s))) = map f (aircraft s)"
  using outer_fold_map [of f m "length (aircraft s)" "[0 ..< length (aircraft s)]" "(s, True)"] assms
  by (simp add: heading_loop_def Let_def)

text \<open>The flag: the conjunction of the tests, on positions the loop does not change.\<close>

lemma outer_fold_done:
  assumes "\<forall>i \<in> set is. i < length (aircraft (fst p))"
  shows "snd (fold (outer_body m N) is p)
     \<longleftrightarrow> snd p \<and> (\<forall>i \<in> set is. reached_destination (aircraft (fst p) ! i) 3)"
  using assms
proof (induction "is" arbitrary: p)
  case Nil
  show ?case by simp
next
  case (Cons i "is")
  let ?q = "outer_body m N i p"
  let ?f = "\<lambda>a. reached_destination a 3"
  have m: "map ?f (aircraft (fst ?q)) = map ?f (aircraft (fst p))"
    by (rule outer_body_map) (simp_all add: reached_destination_def)
  have len: "length (aircraft (fst ?q)) = length (aircraft (fst p))" by simp
  have nth: "?f (aircraft (fst ?q) ! k) = ?f (aircraft (fst p) ! k)" if "k < length (aircraft (fst p))" for k
    using that len arg_cong [OF m, of "\<lambda>l. l ! k"] by simp
  have i: "i < length (aircraft (fst p))" using Cons.prems by simp
  have sq: "snd ?q \<longleftrightarrow> snd p \<and> ?f (aircraft (fst p) ! i)"
    using nth [OF i] by (simp add: outer_body_def Let_def)
  have "snd (fold (outer_body m N) is ?q)
     \<longleftrightarrow> snd ?q \<and> (\<forall>k \<in> set is. ?f (aircraft (fst ?q) ! k))"
    using Cons.prems by (intro Cons.IH) (simp add: len)
  also have "\<dots> \<longleftrightarrow> snd p \<and> ?f (aircraft (fst p) ! i) \<and> (\<forall>k \<in> set is. ?f (aircraft (fst p) ! k))"
    using Cons.prems nth by (auto simp: sq)
  finally show ?case by simp
qed

lemma heading_loop_done:
  "snd (heading_loop m s) \<longleftrightarrow> (\<forall>a \<in> set (aircraft s). reached_destination a 3)"
  using outer_fold_done [of "[0 ..< length (aircraft s)]" "(s, True)" m "length (aircraft s)"]
  by (auto simp: heading_loop_def Let_def all_set_conv_all_nth)

section \<open>Separation losses\<close>

lemma move_fields [simp]:
  "d (move s) = d s" "tau (move s) = tau s" "time_step (move s) = time_step s"
  "step (move s) = step s" "time (move s) = time s" "alerts (move s) = alerts s"
  "separation_losses (move s) = separation_losses s"
  "aircraft (move s) = map (move_one (time_step s)) (aircraft s)"
  by (simp_all add: move_def)

lemma loss_inner:
  "fold (loss_pair i) js s
     = s\<lparr>separation_losses := separation_losses s
          + (\<Sum>j\<leftarrow>js. of_bool (vnorm (vsub (position (aircraft s ! i)) (position (aircraft s ! j))) < d s))\<rparr>"
  by (induction js arbitrary: s) (simp_all add: loss_pair_def add.assoc)

lemma loss_outer:
  "fold (\<lambda>i. fold (loss_pair i) (js i)) is s
     = s\<lparr>separation_losses := separation_losses s
          + (\<Sum>i\<leftarrow>is. \<Sum>j\<leftarrow>js i.
               of_bool (vnorm (vsub (position (aircraft s ! i)) (position (aircraft s ! j))) < d s))\<rparr>"
  by (induction "is" arbitrary: s) (simp_all add: loss_inner add.assoc)

lemma pair_count:
  "(\<Sum>i\<leftarrow>[0 ..< N]. \<Sum>j\<leftarrow>[Suc i ..< N]. of_bool (P i j))
     = int (card {(i, j). i < j \<and> j < N \<and> P i j})"
proof -
  let ?S = "SIGMA i:{0 ..< N}. {Suc i ..< N}"
  have "(\<Sum>i\<leftarrow>[0 ..< N]. \<Sum>j\<leftarrow>[Suc i ..< N]. (of_bool (P i j) :: int))
      = (\<Sum>i\<in>{0 ..< N}. \<Sum>j\<in>{Suc i ..< N}. of_bool (P i j))"
    by (simp add: interv_sum_list_conv_sum_set_nat del: sum_of_bool_eq)
  also have "\<dots> = (\<Sum>(i, j)\<in>?S. of_bool (P i j))"
    by (rule sum.Sigma) simp_all
  also have "\<dots> = (\<Sum>x\<in>?S. of_bool (P (fst x) (snd x)))"
    by (simp add: split_beta del: sum_of_bool_eq)
  also have "\<dots> = int (card (?S \<inter> {x. P (fst x) (snd x)}))"
    by (rule sum_of_bool_eq) (rule finite_SigmaI, simp_all)
  also have "?S \<inter> {x. P (fst x) (snd x)} = {(i, j). i < j \<and> j < N \<and> P i j}"
    by auto
  finally show ?thesis .
qed

lemma loss_loop_eq:
  "loss_loop s = s\<lparr>separation_losses := separation_losses s
      + int (card {(i, j). i < j \<and> j < length (aircraft s)
          \<and> vnorm (vsub (position (aircraft s ! i)) (position (aircraft s ! j))) < d s})\<rparr>"
  by (simp add: loss_loop_def Let_def loss_outer pair_count)

lemma run_one_step_aircraft:
  "aircraft (fst (run_one_step m s)) = aircraft (move (fst (heading_loop m s)))"
  by (simp add: run_one_step_def Let_def split_beta loss_loop_eq)

text \<open>
  C9. After the motion phase, \<open>run_one_step\<close> adds to \<open>separation_losses\<close> the number of pairs
  i < j of aircraft whose distance, at the positions after the move, is strictly less than
  d; so the counter does not decrease.
\<close>

theorem separation_losses_count:
  "separation_losses (fst (run_one_step m s))
     = separation_losses s
       + int (card {(i, j). i < j \<and> j < length (aircraft (fst (run_one_step m s)))
              \<and> vnorm (vsub (position (aircraft (fst (run_one_step m s)) ! i))
                             (position (aircraft (fst (run_one_step m s)) ! j))) < d s})
   \<and> aircraft (fst (run_one_step m s)) = aircraft (move (fst (heading_loop m s)))
   \<and> separation_losses s \<le> separation_losses (fst (run_one_step m s))"
  by (simp add: run_one_step_def Let_def split_beta loss_loop_eq)

section \<open>The flag of run_one_step\<close>

lemma move_one_reached:
  "reached_destination a 3 \<Longrightarrow> position (move_one ts a) = position a"
  "destination (move_one ts a) = destination a"
  by (simp_all add: move_one_def Let_def move_Aircraft_def)

text \<open>
  C3 (as the code has it). \<open>run_one_step\<close> returns true iff every aircraft is within distance 3
  of its destination at the positions it has before the motion phase (the flag is computed
  in the loop of the headings, before \<open>move\<close>); in that case no aircraft moves, so every
  aircraft is within distance 3 after the motion phase too.
\<close>

theorem run_one_step_done:
  "(snd (run_one_step m s)
      \<longleftrightarrow> (\<forall>a \<in> set (aircraft s). vnorm (vsub (destination a) (position a)) \<le> 3))
   \<and> (snd (run_one_step m s)
      \<longrightarrow> (\<forall>a \<in> set (aircraft (fst (run_one_step m s))).
             vnorm (vsub (destination a) (position a)) \<le> 3))"
proof -
  let ?f = "\<lambda>a. reached_destination a 3"
  let ?h = "fst (heading_loop m s)"
  have dn: "snd (run_one_step m s) = snd (heading_loop m s)"
    by (simp add: run_one_step_def Let_def split_beta)
  have 1: "snd (run_one_step m s) \<longleftrightarrow> (\<forall>a \<in> set (aircraft s). ?f a)"
    by (simp add: dn heading_loop_done)
  have m: "map ?f (aircraft ?h) = map ?f (aircraft s)"
    by (rule heading_loop_map) (simp_all add: reached_destination_def)
  have 2: "\<forall>a \<in> set (aircraft (fst (run_one_step m s))). ?f a" if "snd (run_one_step m s)"
  proof -
    have "\<forall>b \<in> set (map ?f (aircraft s)). b" using that 1 by simp
    then have "\<forall>b \<in> set (map ?f (aircraft ?h)). b" by (simp only: m)
    then have all: "\<forall>a \<in> set (aircraft ?h). ?f a" by simp
    have "?f (move_one ts a)" if "?f a" for a ts
      using that move_one_reached [where a = a and ts = ts] by (simp add: reached_destination_def)
    then show ?thesis using all by (simp add: run_one_step_aircraft)
  qed
  show ?thesis using 1 2 by (simp add: reached_destination_def)
qed

lemma single_step:
  assumes "aircraft s = [a]"
  shows "run_one_step m s
     = (s\<lparr>aircraft := [move_one (time_step s) (a\<lparr>heading := compute_heading m a, semi_plan := []\<rparr>)],
           step := step s + 1, time := time s + time_step s\<rparr>,
        reached_destination a 3)"
  using assms
  by (simp add: run_one_step_def heading_loop_def outer_body_def scan_from_def resolve_def
      loss_loop_def move_def Let_def reached_destination_def)

lemma ex_single_step1:
  "run_one_step x0 ex_single
     = (ex_single\<lparr>aircraft := [\<lparr>position = (3, 0), trajectory = [(0, 0), (3, 0)], heading = (1, 0),
                                 destination = (4, 0), semi_plan = []\<rparr>],
                   step := 1, time := 3\<rparr>, False)"
proof -
  have a: "aircraft ex_single = [init_Aircraft (0, 0) (10, 0) (4, 0)]"
    by (simp add: ex_single_def init_Simulation_def)
  show ?thesis
    unfolding single_step [OF a]
    by (simp add: ex_single_def init_Simulation_def init_Aircraft_def reached_destination_def
        compute_heading_def move_one_def move_Aircraft_def Let_def vec_defs vnorm_def sqrt_16)
qed

text \<open>
  An aircraft at distance 4 of its destination, with time step 3: the step returns false,
  and after the motion the aircraft is at distance 1.
\<close>

theorem done_after_motion_counterexample:
  "\<not> snd (run_one_step x0 ex_single)
   \<and> map (\<lambda>a. vnorm (vsub (destination a) (position a))) (aircraft (fst (run_one_step x0 ex_single)))
       = [1]
   \<and> (1 :: real) \<le> 3"
  by (simp add: ex_single_step1 vnorm_def vsub_def)

theorem run_one_step_done_witness:
  "map (\<lambda>a. vnorm (vsub (destination a) (position a))) (aircraft ex_arrived) = [2]
   \<and> (2 :: real) \<le> 3
   \<and> snd (run_one_step x0 ex_arrived)
   \<and> map (\<lambda>a. vnorm (vsub (destination a) (position a))) (aircraft (fst (run_one_step x0 ex_arrived)))
       = [2]"
proof -
  have a: "aircraft ex_arrived = [init_Aircraft (0, 0) (1, 0) (0, 2)]"
    by (simp add: ex_arrived_def init_Simulation_def)
  have h: "map (\<lambda>a. vnorm (vsub (destination a) (position a))) (aircraft ex_arrived) = [2]"
    by (simp add: a init_Aircraft_def vnorm_def vsub_def)
  have p: "map (\<lambda>a. vnorm (vsub (destination a) (position a))) (aircraft (fst (run_one_step x0 ex_arrived)))
       = [2]"
    by (simp add: single_step [OF a] init_Aircraft_def vnorm_def vsub_def move_one_def
        reached_destination_def Let_def)
  show ?thesis
    using h p run_one_step_done [of x0 ex_arrived] by (simp add: a init_Aircraft_def vnorm_def vsub_def)
qed




section \<open>The run of a single aircraft\<close>









section \<open>The heading under constraints\<close>

lemma row_dot_2 [simp]: "row_dot [a, b] h = a * fst h + b * snd h"
  by (simp add: row_dot_def)

lemma butlast_last_3:
  assumes "length sp = 3"
  shows "butlast sp = [sp ! 0, sp ! 1]" and "last sp = sp ! 2"
proof -
  from assms obtain a b c where "sp = [a, b, c]"
    by (cases sp; cases "tl sp"; cases "tl (tl sp)") auto
  then show "butlast sp = [sp ! 0, sp ! 1]" and "last sp = sp ! 2" by simp_all
qed

lemma vnorm_eq_iff: "vnorm h = vnorm g \<longleftrightarrow> (fst h)\<^sup>2 + (snd h)\<^sup>2 - (vnorm g)\<^sup>2 = 0"
proof -
  have "vnorm h = vnorm g \<longleftrightarrow> (vnorm h)\<^sup>2 = (vnorm g)\<^sup>2"
    using vnorm_nonneg [of h] vnorm_nonneg [of g] by (simp add: power2_eq_iff_nonneg)
  then show ?thesis by (simp add: vnorm_sq)
qed

text \<open>
  C5 (as the code has it). For an aircraft with a non-empty constraint set (of half-planes
  \<open>[c.x, c.y, threshold]\<close>), \<open>compute_heading\<close> returns the point of the solver, with no check of
  its status, and that point is feasible for the problem the solver was given exactly when
  it satisfies: the speed preservation \<open>|h| = |self.heading|\<close>, \<open>coef . h >= threshold\<close> for
  every accumulated half-plane, and the two turn-rate inequalities
  \<open>[h_max.y, -h_max.x] . h >= 0\<close> and \<open>[h_min.x, -h_min.y] . h >= 0\<close>. Nothing makes the
  point feasible: the constraints can exclude every heading.
\<close>

theorem compute_heading_feasible:
  assumes "semi_plan self \<noteq> []" and "\<forall>sp \<in> set (semi_plan self). length sp = 3"
  shows "(let h = compute_heading minimize self;
              h_max = mat_dot ((cos theta_max, - sin theta_max), (sin theta_max, cos theta_max)) (heading self);
              h_min = mat_dot ((cos theta_min, - sin theta_min), (sin theta_min, cos theta_min)) (heading self)
          in h = minimize (build_problem self)
           \<and> (feasible (build_problem self) h \<longleftrightarrow>
                 vnorm h = vnorm (heading self)
                 \<and> (\<forall>sp \<in> set (semi_plan self). dot (sp ! 0, sp ! 1) h \<ge> sp ! 2)
                 \<and> dot (snd h_max, - fst h_max) h \<ge> 0
                 \<and> dot (fst h_min, - snd h_min) h \<ge> 0))"
proof -
  have rows: "list_all (\<lambda>(row, l). l \<le> row_dot row h) (map (\<lambda>sp. (butlast sp, last sp)) (semi_plan self))
      \<longleftrightarrow> (\<forall>sp \<in> set (semi_plan self). dot (sp ! 0, sp ! 1) h \<ge> sp ! 2)" for h
    using assms(2) by (auto simp: list_all_iff butlast_last_3 dot_def)
  have cs: "cs_constraint (build_problem self) h = (fst h)\<^sup>2 + (snd h)\<^sup>2 - (vnorm (heading self))\<^sup>2" for h
    by (simp add: build_problem_def Let_def)
  have f: "feasible (build_problem self) h \<longleftrightarrow>
       vnorm h = vnorm (heading self)
       \<and> (\<forall>sp \<in> set (semi_plan self). dot (sp ! 0, sp ! 1) h \<ge> sp ! 2)
       \<and> dot (snd (mat_dot ((cos theta_max, - sin theta_max), (sin theta_max, cos theta_max)) (heading self)),
               - fst (mat_dot ((cos theta_max, - sin theta_max), (sin theta_max, cos theta_max)) (heading self))) h \<ge> 0
       \<and> dot (fst (mat_dot ((cos theta_min, - sin theta_min), (sin theta_min, cos theta_min)) (heading self)),
               - snd (mat_dot ((cos theta_min, - sin theta_min), (sin theta_min, cos theta_min)) (heading self))) h \<ge> 0" for h
    unfolding feasible_def build_problem_rows list_all_append rows cs vnorm_eq_iff [of h]
    by (auto simp: dot_def)
  show ?thesis
    unfolding Let_def using assms(1) f by (simp add: compute_heading_def)
qed

lemma ex_constrained_eq:
  "ex_constrained = ex_self\<lparr>semi_plan := [[- (18 / 25), 24 / 25, 18 / 25]]\<rparr>"
proof -
  have "[0 + 1 ..< 2] = [1 :: nat]" by (simp add: numeral_2_eq_2)
  then have "scan_from 2 0 ex_sim = scan_pair 0 1 ex_sim" by (simp add: scan_from_def)
  moreover have "semi_plan ex_self = []" by (simp add: ex_self_def init_Aircraft_def)
  ultimately show ?thesis
    by (simp add: ex_constrained_def scan_pair_aircraft ex_sim_aircraft ex_semi_plan)
qed

lemma turn_angle:
  "0 < sin theta_max" "sin theta_max < cos theta_max" "theta_min = - theta_max"
proof -
  have p: "0 < pi" by simp
  have t: "0 < theta_max" "theta_max < pi / 4" using p by (simp_all add: theta_max_def)
  show "0 < sin theta_max" using t p by (intro sin_gt_zero) linarith+
  have "sin theta_max < sin (pi / 4)" using t p by (intro sin_monotone_2pi) linarith+
  moreover have "cos (pi / 4) < cos theta_max" using t p by (intro cos_monotone_0_pi) linarith+
  ultimately show "sin theta_max < cos theta_max" by (simp add: sin_45 cos_45)
  show "theta_min = - theta_max" by (simp add: theta_min_def theta_max_def)
qed

lemma ex_infeasible:
  assumes s: "0 < s" "s < c"
    and n: "sqrt (x\<^sup>2 + y\<^sup>2) = 2"
    and b: "- (18 / 25) * x + 24 / 25 * y \<ge> 18 / 25"
    and r1: "s * 2 * x + - (c * 2) * y \<ge> 0"
    and r2: "c * 2 * x + s * 2 * y \<ge> 0"
  shows False
proof -
  have c: "0 < c" using s by simp
  have "x\<^sup>2 + y\<^sup>2 = 2\<^sup>2" using n by (metis abs_numeral real_sqrt_abs real_sqrt_eq_iff)
  then have sq: "x\<^sup>2 + y\<^sup>2 = 4" by simp
  have "x\<^sup>2 \<le> 4" using sq zero_le_power2 [of y] by linarith
  then have "x\<^sup>2 \<le> 2\<^sup>2" by simp
  then have x2: "x \<le> 2" by (metis abs_le_square_iff abs_numeral abs_le_D1)
  have y: "y \<ge> 3 / 4 + 3 / 4 * x" using b by simp
  have cy: "c * y \<le> s * x" using r1 by simp
  show False
  proof (cases "0 < x")
    case True
    have "s * x < c * x" using s(2) True by simp
    then have "c * y < c * x" using cy by simp
    then have "y < x" using c by simp
    then show False using y x2 by simp
  next
    case False
    then have x0: "x \<le> 0" by simp
    have "s * x \<le> 0" using s(1) x0 by (simp add: mult_nonneg_nonpos)
    then have "c * y \<le> 0" using cy by simp
    then have y0: "y \<le> 0" using c by (simp add: mult_le_0_iff)
    then have x1: "x \<le> - 1" using y by simp
    have "c * x < 0" using c x1 by (simp add: mult_pos_neg)
    moreover have "s * y \<le> 0" using s(1) y0 by (simp add: mult_nonneg_nonpos)
    ultimately show False using r2 by simp
  qed
qed

text \<open>
  For the first aircraft of the concrete conflict, at the moment its heading is computed in
  the first step, no heading satisfies the equality, the half-plane and the two turn-rate
  inequalities, whatever the solver returns.
\<close>

theorem heading_constraints_counterexample:
  "semi_plan ex_constrained \<noteq> []
   \<and> \<not> (\<exists>minimize.
          let h = compute_heading minimize ex_constrained;
              h_max = mat_dot ((cos theta_max, - sin theta_max), (sin theta_max, cos theta_max))
                        (heading ex_constrained);
              h_min = mat_dot ((cos theta_min, - sin theta_min), (sin theta_min, cos theta_min))
                        (heading ex_constrained)
          in vnorm h = vnorm (heading ex_constrained)
           \<and> list_all (\<lambda>sp. dot (sp ! 0, sp ! 1) h \<ge> sp ! 2) (semi_plan ex_constrained)
           \<and> dot (snd h_max, - fst h_max) h \<ge> 0
           \<and> dot (fst h_min, - snd h_min) h \<ge> 0)"
proof -
  have hd: "heading ex_constrained = (2, 0)" "semi_plan ex_constrained = [[- (18 / 25), 24 / 25, 18 / 25]]"
    by (simp_all add: ex_constrained_eq ex_self_def init_Aircraft_def)
  have v2: "vnorm (2, 0) = 2" by (simp add: vnorm_def)
  show ?thesis
    unfolding Let_def hd turn_angle(3)
    using ex_infeasible [OF turn_angle(1,2)]
    by (auto simp: v2 vnorm_def dot_def mat_dot_def)
qed

theorem compute_heading_feasible_witness:
  "semi_plan ex_constrained \<noteq> [] \<and> list_all (\<lambda>sp. length sp = 3) (semi_plan ex_constrained)
   \<and> compute_heading x0 ex_constrained = (2, 0)
   \<and> \<not> feasible (build_problem ex_constrained) (compute_heading x0 ex_constrained)"
proof -
  have hd: "heading ex_constrained = (2, 0)" "semi_plan ex_constrained = [[- (18 / 25), 24 / 25, 18 / 25]]"
    by (simp_all add: ex_constrained_eq ex_self_def init_Aircraft_def)
  have h1: "semi_plan ex_constrained \<noteq> []" and h2: "\<forall>sp \<in> set (semi_plan ex_constrained). length sp = 3"
    by (simp_all add: hd)
  have x: "x0 (build_problem ex_constrained) = (2, 0)"
    by (simp add: build_problem_def Let_def hd)
  have ch: "compute_heading x0 ex_constrained = (2, 0)"
    by (simp add: compute_heading_def hd x)
  show ?thesis
    using h1 compute_heading_feasible [OF h1 h2, of x0, unfolded Let_def ch]
    by (simp add: ch hd dot_def x)
qed

section \<open>The interleaved loop and the two-phase protocol\<close>

lemma detect_conflict_cong:
  assumes "position a = position a'" "heading a = heading a'"
    "position b = position b'" "heading b = heading b'"
  shows "detect_conflict a b sep tt = detect_conflict a' b' sep tt"
  by (simp add: detect_conflict_def assms)

lemma compute_semi_plan_cong:
  assumes "position a = position a'" "heading a = heading a'"
    "position b = position b'" "heading b = heading b'"
  shows "compute_semi_plan a b sep tt = compute_semi_plan a' b' sep tt"
  by (simp add: compute_semi_plan_def detect_conflict_cong [OF assms] assms Let_def split_beta)

lemma scan_pair_frozen_eq:
  assumes "position (aircraft s ! i) = position (acs0 ! i)" "heading (aircraft s ! i) = heading (acs0 ! i)"
    "position (aircraft s ! j) = position (acs0 ! j)" "heading (aircraft s ! j) = heading (acs0 ! j)"
  shows "scan_pair i j s = scan_pair_frozen acs0 (i, j) s"
  by (simp add: scan_pair_def scan_pair_frozen_def Let_def
      detect_conflict_cong [OF assms] compute_semi_plan_cong [OF assms])

lemma fold_pairs:
  "fold (scan_from N) [0 ..< N] s = fold (\<lambda>ij. scan_pair (fst ij) (snd ij)) (pairs N) s"
proof -
  have "fold (\<lambda>ij. scan_pair (fst ij) (snd ij)) (concat (map (\<lambda>i. map (Pair i) [i + 1 ..< N]) is)) s
      = fold (scan_from N) is s" for "is"
    by (induction "is" arbitrary: s) (simp_all add: scan_from_def fold_map comp_def)
  then show ?thesis by (simp add: pairs_def)
qed

lemma pairs_bound: "(i, j) \<in> set (pairs N) \<Longrightarrow> i < j \<and> j < N"
  by (auto simp: pairs_def)

lemma fold_frozen:
  assumes "\<forall>ij \<in> set ps. fst ij < length acs0 \<and> snd ij < length acs0"
    and "map position (aircraft s) = map position acs0"
    and "map heading (aircraft s) = map heading acs0"
  shows "fold (\<lambda>ij. scan_pair (fst ij) (snd ij)) ps s = fold (scan_pair_frozen acs0) ps s"
  using assms
proof (induction ps arbitrary: s)
  case Nil
  show ?case by simp
next
  case (Cons ij ps)
  have len: "length (aircraft s) = length acs0"
    using Cons.prems(2) by (metis length_map)
  have nth: "position (aircraft s ! k) = position (acs0 ! k)" "heading (aircraft s ! k) = heading (acs0 ! k)"
    if "k < length acs0" for k
    using that len arg_cong [OF Cons.prems(2), of "\<lambda>l. l ! k"] arg_cong [OF Cons.prems(3), of "\<lambda>l. l ! k"]
    by simp_all
  have b: "fst ij < length acs0" "snd ij < length acs0" using Cons.prems(1) by simp_all
  have e: "scan_pair (fst ij) (snd ij) s = scan_pair_frozen acs0 ij s"
    using scan_pair_frozen_eq [OF nth(1) [OF b(1)] nth(2) [OF b(1)] nth(1) [OF b(2)] nth(2) [OF b(2)]]
    by simp
  have "fold (\<lambda>ij. scan_pair (fst ij) (snd ij)) ps (scan_pair (fst ij) (snd ij) s)
      = fold (scan_pair_frozen acs0) ps (scan_pair (fst ij) (snd ij) s)"
    using Cons.prems by (intro Cons.IH) (simp_all add: scan_pair_map)
  then show ?case by (simp add: e)
qed

lemma scan_all_frozen:
  "fold (scan_from (length (aircraft s))) [0 ..< length (aircraft s)] s = two_phase_scan s"
  unfolding fold_pairs two_phase_scan_def
  by (rule fold_frozen) (use pairs_bound in fastforce)+

lemma resolve_nf:
  "resolve m k s = s\<lparr>aircraft := (aircraft s)[k := (aircraft s ! k)
       \<lparr>heading := compute_heading m (aircraft s ! k), semi_plan := []\<rparr>]\<rparr>"
  by (cases "k < length (aircraft s)") (simp_all add: resolve_def Let_def list_update_beyond)

lemma scan_pair_nf:
  assumes "i \<noteq> j"
  shows "scan_pair i j s = s\<lparr>alerts := alerts s
        + of_bool (fst (detect_conflict (aircraft s ! i) (aircraft s ! j) (d s) (tau s))),
      aircraft := (aircraft s)
         [i := (aircraft s ! i)\<lparr>semi_plan := semi_plan (aircraft s ! i)
               @ fst (compute_semi_plan (aircraft s ! i) (aircraft s ! j) (d s) (tau s))\<rparr>,
          j := (aircraft s ! j)\<lparr>semi_plan := semi_plan (aircraft s ! j)
               @ snd (compute_semi_plan (aircraft s ! i) (aircraft s ! j) (d s) (tau s))\<rparr>]\<rparr>"
  using assms by (simp add: scan_pair_def Let_def split_beta)

lemma update3_swap:
  assumes "k \<noteq> i" and "k \<noteq> j"
  shows "xs[i := a, j := b, k := c] = xs[k := c, i := a, j := b]"
  using assms by (metis list_update_swap)

lemma resolve_scan_pair_commute:
  assumes "k \<noteq> i" and "k \<noteq> j" and "i \<noteq> j"
  shows "resolve m k (scan_pair i j s) = scan_pair i j (resolve m k s)"
  using assms
  by (simp add: resolve_nf scan_pair_nf update3_swap)

lemma resolve_commute:
  assumes "i \<noteq> j"
  shows "resolve m i (resolve m j s) = resolve m j (resolve m i s)"
  using assms by (simp add: resolve_nf list_update_swap [of i j])

lemma resolve_other: "k \<noteq> i \<Longrightarrow> aircraft (resolve m k s) ! i = aircraft s ! i"
  by (simp add: resolve_nf)

lemma scan_pair_other:
  "k \<noteq> i \<Longrightarrow> k \<noteq> j \<Longrightarrow> aircraft (scan_pair i j s) ! k = aircraft s ! k"
  by (simp add: scan_pair_def Let_def split_beta)

lemma resolve_fold_scan_pair:
  assumes "k \<noteq> i" and "\<forall>j \<in> set js. k \<noteq> j \<and> i \<noteq> j"
  shows "resolve m k (fold (scan_pair i) js s) = fold (scan_pair i) js (resolve m k s)"
  using assms(2)
proof (induction js arbitrary: s)
  case Nil
  show ?case by simp
next
  case (Cons j js)
  then show ?case using assms(1) by (simp add: resolve_scan_pair_commute)
qed

lemma resolve_scan_from:
  assumes "k < i"
  shows "resolve m k (scan_from N i s) = scan_from N i (resolve m k s)"
  unfolding scan_from_def
  by (rule resolve_fold_scan_pair) (use assms in auto)

lemma resolves_scan_from:
  assumes "\<forall>k \<in> set ks. k < i"
  shows "scan_from N i (fold (resolve m) ks s) = fold (resolve m) ks (scan_from N i s)"
  using assms
  by (induction ks arbitrary: s) (simp_all add: resolve_scan_from)

lemma outer_body_fst: "fst (outer_body m N i p) = resolve m i (scan_from N i (fst p))"
  by (simp add: outer_body_def Let_def)

lemma interleaved_split:
  "fst (fold (outer_body m N) [0 ..< i] p)
     = fold (resolve m) [0 ..< i] (fold (scan_from N) [0 ..< i] (fst p))"
proof (induction i)
  case 0
  show ?case by simp
next
  case (Suc i)
  have "scan_from N i (fold (resolve m) [0 ..< i] (fold (scan_from N) [0 ..< i] (fst p)))
      = fold (resolve m) [0 ..< i] (scan_from N i (fold (scan_from N) [0 ..< i] (fst p)))"
    by (rule resolves_scan_from) simp
  then show ?case by (simp add: outer_body_fst Suc.IH)
qed

lemma resolves_other:
  assumes "i \<notin> set ks"
  shows "aircraft (fold (resolve m) ks s) ! i = aircraft s ! i"
  using assms by (induction ks arbitrary: s) (auto simp: resolve_other)

lemma scan_from_other:
  assumes "k < i"
  shows "aircraft (scan_from N i s) ! k = aircraft s ! k"
proof -
  have "aircraft (fold (scan_pair i) js s) ! k = aircraft s ! k" if "\<forall>j \<in> set js. k \<noteq> j" for js
    using that assms by (induction js arbitrary: s) (simp_all add: scan_pair_other)
  then show ?thesis unfolding scan_from_def using assms by simp
qed

lemma scans_other:
  assumes "\<forall>j \<in> set js. k < j"
  shows "aircraft (fold (scan_from N) js s) ! k = aircraft s ! k"
  using assms by (induction js arbitrary: s) (simp_all add: scan_from_other)

lemma resolve_order:
  assumes "distinct ord" and "set ord = {0 ..< N}"
  shows "fold (resolve m) ord = fold (resolve m) [0 ..< N]"
proof (rule fold_multiset_equiv)
  show "resolve m x \<circ> resolve m y = resolve m y \<circ> resolve m x" for x y
    by (cases "x = y") (auto simp: fun_eq_iff resolve_commute)
  have "set ord = set [0 ..< N]" using assms(2) by simp
  then show "mset ord = mset [0 ..< N]"
    using assms(1) set_eq_iff_mset_eq_distinct [of ord "[0 ..< N]"] distinct_upt by blast
qed

lemma resolves_alerts: "alerts (fold (resolve m) ks s) = alerts s"
  by (induction ks arbitrary: s) simp_all

text \<open>
  C2. The first loop of \<open>run_one_step\<close>, which interleaves the scan of the pairs (i, j), j > i,
  with the resolution of aircraft i, is the two-phase protocol: its result is the result of
  scanning every pair on the headings and positions frozen at the start of the step and
  then resolving the aircraft, in any order \<open>ord\<close>; the alerts are those of the frozen scan;
  and the constraint set aircraft i has at the moment its heading is computed (after the
  inner loop for i, the aircraft before i being already resolved) is the one the frozen
  scan of all pairs accumulates for it.
\<close>

theorem two_phase_refinement:
  assumes "distinct ord" and "set ord = {0 ..< length (aircraft sim)}"
  shows "fst (heading_loop minimize sim) = two_phase_step minimize ord sim
     \<and> alerts (fst (heading_loop minimize sim)) = alerts (two_phase_scan sim)
     \<and> (\<forall>i < length (aircraft sim).
          semi_plan (aircraft (scan_from (length (aircraft sim)) i
                       (fst (fold (outer_body minimize (length (aircraft sim))) [0 ..< i] (sim, True)))) ! i)
            = semi_plan (aircraft (two_phase_scan sim) ! i))"
proof -
  let ?N = "length (aircraft sim)"
  have 1: "fst (heading_loop minimize sim) = two_phase_step minimize ord sim"
    unfolding heading_loop_def Let_def interleaved_split two_phase_step_def
      resolve_order [OF assms] scan_all_frozen [symmetric]
    by simp
  have 2: "alerts (fst (heading_loop minimize sim)) = alerts (two_phase_scan sim)"
    unfolding 1 two_phase_step_def by (rule resolves_alerts)
  have 3: "aircraft (scan_from ?N i (fst (fold (outer_body minimize ?N) [0 ..< i] (sim, True)))) ! i
      = aircraft (two_phase_scan sim) ! i" if "i < ?N" for i
  proof -
    let ?t = "fold (scan_from ?N) [0 ..< Suc i] sim"
    have "scan_from ?N i (fst (fold (outer_body minimize ?N) [0 ..< i] (sim, True)))
        = fold (resolve minimize) [0 ..< i] ?t"
      unfolding interleaved_split by (simp add: resolves_scan_from)
    then have a: "aircraft (scan_from ?N i (fst (fold (outer_body minimize ?N) [0 ..< i] (sim, True)))) ! i
        = aircraft ?t ! i"
      by (simp only: resolves_other [of i "[0 ..< i]", simplified])
    have "[0 ..< ?N] = [0 ..< Suc i] @ [Suc i ..< ?N]"
      using that by (metis Suc_leI le_add_diff_inverse zero_le upt_add_eq_append)
    then have "two_phase_scan sim = fold (scan_from ?N) [Suc i ..< ?N] ?t"
      unfolding scan_all_frozen [symmetric] by (simp only: fold_append comp_def)
    then have "aircraft (two_phase_scan sim) ! i = aircraft ?t ! i"
      by (simp add: scans_other)
    then show ?thesis using a by simp
  qed
  show ?thesis using 1 2 3 by simp
qed

lemma ex_two_phase_alerts: "alerts (two_phase_scan ex_sim) = 1"
proof -
  have p: "pairs 2 = [(0, 1)]" by (simp add: pairs_def numeral_2_eq_2)
  have l: "length (aircraft ex_sim) = 2" by (simp add: ex_sim_aircraft)
  have a: "alerts ex_sim = 0" by (simp add: ex_sim_def init_Simulation_def)
  show ?thesis
    unfolding two_phase_scan_def l p
    by (simp add: scan_pair_frozen_def Let_def split_beta ex_sim_aircraft ex_detect a)
qed

theorem two_phase_refinement_witness:
  "distinct [1, 0 :: nat] \<and> set [1, 0] = {0 ..< length (aircraft ex_sim)}
   \<and> fst (heading_loop x0 ex_sim) = two_phase_step x0 [1, 0] ex_sim
   \<and> alerts (fst (heading_loop x0 ex_sim)) = 1
   \<and> semi_plan (aircraft (scan_from (length (aircraft ex_sim)) 0
         (fst (fold (outer_body x0 (length (aircraft ex_sim))) [0 ..< 0] (ex_sim, True)))) ! 0)
       = semi_plan (aircraft (two_phase_scan ex_sim) ! 0)"
proof -
  have h1: "distinct [1, 0 :: nat]" by simp
  have h2: "set [1, 0] = {0 ..< length (aircraft ex_sim)}"
    by (auto simp: ex_sim_aircraft)
  have l: "0 < length (aircraft ex_sim)" by (simp add: ex_sim_aircraft)
  note t = two_phase_refinement [OF h1 h2, of x0]
  from t have c1: "fst (heading_loop x0 ex_sim) = two_phase_step x0 [1, 0] ex_sim" by blast
  from t have "alerts (fst (heading_loop x0 ex_sim)) = alerts (two_phase_scan ex_sim)" by blast
  then have c2: "alerts (fst (heading_loop x0 ex_sim)) = 1" by (simp only: ex_two_phase_alerts)
  from t l have c3: "semi_plan (aircraft (scan_from (length (aircraft ex_sim)) 0
         (fst (fold (outer_body x0 (length (aircraft ex_sim))) [0 ..< 0] (ex_sim, True)))) ! 0)
       = semi_plan (aircraft (two_phase_scan ex_sim) ! 0)" by blast
  show ?thesis by (intro conjI h1 h2 c1 c2 c3)
qed

section \<open>The half-planes of a pair when the roles are swapped\<close>

lemma detect_conflict_geom_swap:
  "snd (detect_conflict b a sep tt)
     = (vneg (fst (snd (detect_conflict a b sep tt))),
        vneg (fst (snd (snd (detect_conflict a b sep tt)))),
        vneg (snd (snd (snd (detect_conflict a b sep tt)))))"
proof -
  have n: "vnorm (vsub (position a) (position b)) = vnorm (vsub (position b) (position a))"
    by (rule vnorm_vsub_commute)
  have neg: "vsub (position a) (position b) = vneg (vsub (position b) (position a))"
    "vsub (heading b) (heading a) = vneg (vsub (heading a) (heading b))"
    by (simp_all add: vsub_def vneg_def)
  show ?thesis
    by (simp add: detect_conflict_def Let_def n) (simp add: neg mat_dot_vneg)
qed

lemma vnorm_vneg: "vnorm (vneg u) = vnorm u"
  by (simp add: vnorm_def vneg_def)

lemma exhaust_vector_vneg:
  "exhaust_vector (vneg vr) (vneg t1) (vneg t2) = vneg (exhaust_vector vr t1 t2)"
proof -
  have c: "vsub (smul (dot (vneg t) (vneg vr) / (vnorm t)\<^sup>2) (vneg t)) (vneg vr)
      = vneg (vsub (smul (dot t vr / (vnorm t)\<^sup>2) t) vr)" for t
    by (simp add: vec_defs)
  show ?thesis
    by (simp add: exhaust_vector_cases vnorm_vneg c)
qed

text \<open>
  The two half-planes of a pair are the same whichever aircraft is \<open>self\<close>: the sign of the
  threshold stored for \<open>other\<close> is the one that makes the pair symmetric.
\<close>

lemma semi_plan_role_swap:
  "compute_semi_plan b a sep tt
     = (snd (compute_semi_plan a b sep tt), fst (compute_semi_plan a b sep tt))"
proof -
  have t: "dot (vneg c) (vneg (vadd h (sdiv (vneg c) 2))) = dot c (vsub h (sdiv c 2))"
    "dot (vneg c) (vsub h (sdiv (vneg c) 2)) = dot c (vneg (vadd h (sdiv c 2)))" for c h
    by (simp_all add: vec_defs algebra_simps)
  show ?thesis
    by (simp add: compute_semi_plan_cases detect_conflict_swap [of b a]
        detect_conflict_geom_swap [of b a] exhaust_vector_vneg t)
       (simp add: vneg_def)
qed

end
